theory Spec2Isabelle
  imports Complex_Main
begin

section \<open>The admin service of \<^verbatim>\<open>src/services/admin.service.ts\<close>\<close>

text \<open>
  The module holds five asynchronous functions. Each of the first four builds one request
  with the query builder of the database client, awaits the answer, and either throws an
  \<^verbatim>\<open>Error\<close> or shapes a result object; the fifth is a stub. The embedding keeps that
  shape:
  \<^item> a request is the table named in \<^verbatim>\<open>from\<close> and the builder calls made on it, in the
    order the code makes them (the builder is mutated in place, so a call whose result is
    dropped, as in \<^verbatim>\<open>query.or(...)\<close>, still counts);
  \<^item> the database is a parameter \<open>db\<close> that maps the request to the awaited answer
    \<^verbatim>\<open>{data, error, count}\<close>;
  \<^item> a function returns the effects it performed, in order (the request sent and the console
    output), and either the thrown error (\<open>Inl\<close>) or the returned object (\<open>Inr\<close>);
  \<^item> \<^verbatim>\<open>new Date().toISOString()\<close> reads a clock, which is the parameter \<open>now\<close>.

  A \<^verbatim>\<open>number\<close> is a double, and the arithmetic of lines 47 to 48, 88 to 89 and 167 to 168
  is that of doubles (next subsection). The count in the answer of the database is an
  integer or null. The values of the enumerations of \<^verbatim>\<open>database.types\<close> are the strings
  they are at run time. An optional property is an \<open>option\<close>, with \<open>None\<close> for
  \<^verbatim>\<open>undefined\<close>. The construction of the client (\<^verbatim>\<open>createSupabaseAdminClient\<close>) is taken
  to succeed.
\<close>

subsection \<open>Numbers\<close>

text \<open>
  A finite double is written as the rational number it denotes; besides these there are the
  two infinities and \<^verbatim>\<open>NaN\<close>. A value \<open>Num x\<close> is a double when \<open>x\<close> is one, that is when
  \<open>round_double x = Num x\<close>; the parameters of the functions are doubles and every
  operation returns one. The two zeros are one value here: the module never divides, and
  both are printed as \<^verbatim>\<open>0\<close> when the client writes the range into the request.

  The sum, difference or product of two finite doubles is the exact result rounded to the
  nearest double, ties to the even significand, and an infinity when the rounded magnitude
  reaches \<open>2^1024\<close>. The doubles around a magnitude \<open>a\<close> are the multiples of \<open>ulp a\<close>, the
  power of two \<open>2^e\<close> with \<open>2^(52+e) \<le> a < 2^(53+e)\<close> and \<open>-1074 \<le> e \<le> 971\<close>; it is
  found by doubling from 1 or by halving from 1, at most 971 or 1074 times.
\<close>

datatype js_number = Num rat | Infinity | NegInfinity | NaN

text \<open>The nearest integer, the even one of two at the same distance.\<close>

definition half_even :: "rat \<Rightarrow> int" where
  "half_even q =
    (let f = \<lfloor>q\<rfloor>; d = q - of_int f
     in if d < 1 / 2 then f else if 1 / 2 < d then f + 1 else if even f then f else f + 1)"

fun scale_up :: "nat \<Rightarrow> rat \<Rightarrow> rat \<Rightarrow> rat" where
  "scale_up k a s = (if k = 0 \<or> a < 2 ^ 53 * s then s else scale_up (k - 1) a (2 * s))"

fun scale_down :: "nat \<Rightarrow> rat \<Rightarrow> rat \<Rightarrow> rat" where
  "scale_down k a s = (if k = 0 \<or> 2 ^ 52 * s \<le> a then s else scale_down (k - 1) a (s / 2))"

declare scale_up.simps [simp del] scale_down.simps [simp del]

definition ulp :: "rat \<Rightarrow> rat" where
  "ulp a = (if 2 ^ 53 \<le> a then scale_up 971 a 1 else scale_down 1074 a 1)"

definition round_double :: "rat \<Rightarrow> js_number" where
  "round_double x =
    (if x = 0 then Num 0
     else (let a = \<bar>x\<bar>; s = ulp a; r = of_int (half_even (a / s)) * s
           in if 2 ^ 1024 \<le> r then (if 0 < x then Infinity else NegInfinity)
              else Num (if 0 < x then r else - r)))"

text \<open>Negation, \<^verbatim>\<open>+\<close>, \<^verbatim>\<open>-\<close> and \<^verbatim>\<open>*\<close> on all numbers.\<close>

fun js_neg :: "js_number \<Rightarrow> js_number" where
  "js_neg (Num x) = Num (- x)"
| "js_neg Infinity = NegInfinity"
| "js_neg NegInfinity = Infinity"
| "js_neg NaN = NaN"

fun js_add :: "js_number \<Rightarrow> js_number \<Rightarrow> js_number" where
  "js_add (Num x) (Num y) = round_double (x + y)"
| "js_add (Num x) Infinity = Infinity"
| "js_add (Num x) NegInfinity = NegInfinity"
| "js_add Infinity (Num y) = Infinity"
| "js_add Infinity Infinity = Infinity"
| "js_add Infinity NegInfinity = NaN"
| "js_add NegInfinity (Num y) = NegInfinity"
| "js_add NegInfinity Infinity = NaN"
| "js_add NegInfinity NegInfinity = NegInfinity"
| "js_add NaN b = NaN"
| "js_add a NaN = NaN"

definition js_sub :: "js_number \<Rightarrow> js_number \<Rightarrow> js_number" where
  "js_sub a b = js_add a (js_neg b)"

fun js_mul :: "js_number \<Rightarrow> js_number \<Rightarrow> js_number" where
  "js_mul (Num x) (Num y) = round_double (x * y)"
| "js_mul (Num x) Infinity = (if x = 0 then NaN else if 0 < x then Infinity else NegInfinity)"
| "js_mul (Num x) NegInfinity = (if x = 0 then NaN else if 0 < x then NegInfinity else Infinity)"
| "js_mul Infinity (Num y) = (if y = 0 then NaN else if 0 < y then Infinity else NegInfinity)"
| "js_mul NegInfinity (Num y) = (if y = 0 then NaN else if 0 < y then NegInfinity else Infinity)"
| "js_mul Infinity Infinity = Infinity"
| "js_mul Infinity NegInfinity = NegInfinity"
| "js_mul NegInfinity Infinity = NegInfinity"
| "js_mul NegInfinity NegInfinity = Infinity"
| "js_mul NaN b = NaN"
| "js_mul a NaN = NaN"



subsection \<open>Values, requests and answers\<close>

datatype js_value = JSString string | JSNumber js_number | JSNull | JSUndefined

text \<open>The thrown \<^verbatim>\<open>new Error(message)\<close>.\<close>

datatype js_error = Error string

text \<open>The error object of the database client; the module reads its \<^verbatim>\<open>message\<close> only.\<close>

datatype PostgrestError = PostgrestError (message: string)

datatype count_option = Exact | Planned | Estimated

text \<open>
  The builder calls the module uses. \<open>Select\<close> keeps the items of the column text
  (separated at its top-level commas, layout whitespace dropped) and the count option; \<open>Order\<close> keeps the column
  and the \<^verbatim>\<open>ascending\<close> flag; \<open>Update\<close> keeps the object literal as its properties in order.
\<close>

datatype builder_call =
    Select "string list" count_option
  | Or string
  | Eq string string
  | Range js_number js_number
  | Order string bool
  | Update "(string \<times> js_value) list"

record request =
  table :: string
  calls :: "builder_call list"

record 'row response =
  data :: "'row list option"
  error :: "PostgrestError option"
  count :: "int option"

text \<open>
  A template literal is kept as the list of its parts: the literal text and the values of
  its holes, which the console would convert to text.
\<close>

datatype effect =
    DbRequest request
  | ConsoleLog "js_value list"
  | ConsoleError string PostgrestError

fun db_requests :: "effect list \<Rightarrow> request list" where
  "db_requests [] = []"
| "db_requests (DbRequest r # es) = r # db_requests es"
| "db_requests (ConsoleLog v # es) = db_requests es"
| "db_requests (ConsoleError s e # es) = db_requests es"

fun ranges :: "builder_call list \<Rightarrow> (js_number \<times> js_number) list" where
  "ranges [] = []"
| "ranges (Range a b # cs) = (a, b) # ranges cs"
| "ranges (Select v va # cs) = ranges cs"
| "ranges (Or v # cs) = ranges cs"
| "ranges (Eq v va # cs) = ranges cs"
| "ranges (Order v va # cs) = ranges cs"
| "ranges (Update v # cs) = ranges cs"

fun orders :: "builder_call list \<Rightarrow> (string \<times> bool) list" where
  "orders [] = []"
| "orders (Order column ascending # cs) = (column, ascending) # orders cs"
| "orders (Select v va # cs) = orders cs"
| "orders (Or v # cs) = orders cs"
| "orders (Eq v va # cs) = orders cs"
| "orders (Range v va # cs) = orders cs"
| "orders (Update v # cs) = orders cs"

subsection \<open>Parameter and result objects\<close>

text \<open>
  The three parameter interfaces all start with the optional \<^verbatim>\<open>page\<close> and \<^verbatim>\<open>limit\<close>;
  \<^verbatim>\<open>GetUsersParams\<close> and \<^verbatim>\<open>GetReportsParams\<close> are written as extensions of the smallest
  one, which is what they are structurally.
\<close>

record GetAdminPostsParams =
  page :: "js_number option"
  limit :: "js_number option"

record GetUsersParams = GetAdminPostsParams +
  search :: "string option"
  role :: "string option"
  tier :: "string option"

record GetReportsParams = GetAdminPostsParams +
  status :: "string option"

text \<open>The returned objects; \<^verbatim>\<open>count\<close> is written first in each.\<close>

record counted =
  count :: int

record 'row UsersResult = counted +
  users :: "'row list option"

record 'row PostsResult = counted +
  posts :: "'row list"

record 'row ReportsResult = counted +
  reports :: "'row list option"

record UpdateResult =
  success :: bool

text \<open>
  An optional string is tested by its truthiness (\<^verbatim>\<open>if (search)\<close>): \<^verbatim>\<open>undefined\<close> and the
  empty string are falsy, every other string is truthy. Below, such a test is the case
  distinction on the option followed by the test for the empty string.
\<close>

text \<open>\<^verbatim>\<open>data?.length\<close> and \<^verbatim>\<open>data?.length || 0\<close> inside a template literal.\<close>

fun length_opt :: "'row list option \<Rightarrow> js_value" where
  "length_opt None = JSUndefined"
| "length_opt (Some rows) = JSNumber (Num (of_nat (length rows)))"

fun length_or_0 :: "'row list option \<Rightarrow> js_value" where
  "length_or_0 None = JSNumber (Num 0)"
| "length_or_0 (Some rows) = JSNumber (Num (of_nat (length rows)))"

fun num_or_null :: "int option \<Rightarrow> js_value" where
  "num_or_null None = JSNull"
| "num_or_null (Some n) = JSNumber (Num (of_int n))"

subsection \<open>\<^verbatim>\<open>getUsersForAdmin\<close>\<close>

text \<open>The template literal of line 33, the argument of \<^verbatim>\<open>query.or\<close>.\<close>

definition search_filter :: "string \<Rightarrow> string" where
  "search_filter s = ''nickname.ilike.%'' @ s @ ''%,email.ilike.%'' @ s @ ''%''"

text \<open>Lines 23 to 52: the request as it stands when it is awaited.\<close>

definition getUsersForAdmin_query :: "GetUsersParams option \<Rightarrow> request" where
  "getUsersForAdmin_query params_arg =
    (let params = (case params_arg of None \<Rightarrow>
                     \<lparr>page = None, limit = None, search = None, role = None, tier = None\<rparr>
                   | Some p \<Rightarrow> p);
         page' = (case page params of None \<Rightarrow> Num 1 | Some p \<Rightarrow> p);
         limit' = (case limit params of None \<Rightarrow> Num 10 | Some l \<Rightarrow> l);
         query = [Select [''*''] Exact];
         query = (case search params of
                    Some s \<Rightarrow> if s \<noteq> [] then query @ [Or (search_filter s)] else query
                  | None \<Rightarrow> query);
         query = (case role params of
                    Some r \<Rightarrow> if r \<noteq> [] then query @ [Eq ''role'' r] else query
                  | None \<Rightarrow> query);
         query = (case tier params of
                    Some t \<Rightarrow> if t \<noteq> [] then query @ [Eq ''tier'' t] else query
                  | None \<Rightarrow> query);
         start = js_mul (js_sub page' (Num 1)) limit';
         end' = js_sub (js_add start limit') (Num 1);
         query = query @ [Range start end'];
         query = query @ [Order ''created_at'' False]
     in \<lparr>table = ''users'', calls = query\<rparr>)"

definition getUsersForAdmin ::
  "(request \<Rightarrow> 'row response) \<Rightarrow> GetUsersParams option
     \<Rightarrow> effect list \<times> (js_error + 'row UsersResult)" where
  "getUsersForAdmin db params_arg =
    (let query = getUsersForAdmin_query params_arg;
         answer = db query
     in case error answer of
          Some e \<Rightarrow>
            ([DbRequest query, ConsoleError ''Error fetching users for admin:'' e],
             Inl (Error (''Failed to fetch users: '' @ message e)))
        | None \<Rightarrow>
            ([DbRequest query,
              ConsoleLog [JSString ''Fetched '', length_opt (data answer),
                          JSString '' users for admin (total: '',
                          num_or_null (response.count answer), JSString '')'']],
             Inr \<lparr>count = (case response.count answer of None \<Rightarrow> 0 | Some c \<Rightarrow> c),
                  users = data answer\<rparr>))"

subsection \<open>\<^verbatim>\<open>getPostsForAdmin\<close>\<close>

text \<open>Lines 83 to 107, without the console output.\<close>

definition getPostsForAdmin_query :: "GetAdminPostsParams option \<Rightarrow> request" where
  "getPostsForAdmin_query params_arg =
    (let params = (case params_arg of None \<Rightarrow> \<lparr>page = None, limit = None\<rparr> | Some p \<Rightarrow> p);
         page' = (case page params of None \<Rightarrow> Num 1 | Some p \<Rightarrow> p);
         limit' = (case limit params of None \<Rightarrow> Num 10 | Some l \<Rightarrow> l);
         from = js_mul (js_sub page' (Num 1)) limit';
         to = js_sub (js_add from limit') (Num 1)
     in \<lparr>table = ''posts'',
         calls = [Select [''*'', ''users!inner ( * )'', ''tags ( * )''] Exact,
                  Order ''created_at'' False,
                  Range from to]\<rparr>)"

definition getPostsForAdmin ::
  "(request \<Rightarrow> 'row response) \<Rightarrow> GetAdminPostsParams option
     \<Rightarrow> effect list \<times> (js_error + 'row PostsResult)" where
  "getPostsForAdmin db params_arg =
    (let params = (case params_arg of None \<Rightarrow> \<lparr>page = None, limit = None\<rparr> | Some p \<Rightarrow> p);
         page' = (case page params of None \<Rightarrow> Num 1 | Some p \<Rightarrow> p);
         limit' = (case limit params of None \<Rightarrow> Num 10 | Some l \<Rightarrow> l);
         fetching = ConsoleLog [JSString ''Fetching posts for admin: page='', JSNumber page',
                                JSString '', limit='', JSNumber limit'];
         query = getPostsForAdmin_query params_arg;
         answer = db query
     in case error answer of
          Some e \<Rightarrow>
            ([fetching, DbRequest query, ConsoleError ''Error fetching posts for admin:'' e],
             Inl (Error (''Failed to fetch posts: '' @ message e)))
        | None \<Rightarrow>
            ([fetching, DbRequest query,
              ConsoleLog [JSString ''Fetched '', length_or_0 (data answer),
                          JSString '' posts for admin (total: '',
                          num_or_null (response.count answer), JSString '')'']],
             Inr \<lparr>count = (case response.count answer of None \<Rightarrow> 0 | Some c \<Rightarrow> c),
                  posts = (case data answer of None \<Rightarrow> [] | Some rows \<Rightarrow> rows)\<rparr>))"

subsection \<open>\<^verbatim>\<open>getReportsForAdmin\<close>\<close>

text \<open>Lines 149 to 172.\<close>

definition getReportsForAdmin_query :: "GetReportsParams option \<Rightarrow> request" where
  "getReportsForAdmin_query params_arg =
    (let params = (case params_arg of None \<Rightarrow> \<lparr>page = None, limit = None, status = None\<rparr>
                   | Some p \<Rightarrow> p);
         page' = (case page params of None \<Rightarrow> Num 1 | Some p \<Rightarrow> p);
         limit' = (case limit params of None \<Rightarrow> Num 10 | Some l \<Rightarrow> l);
         query = [Select [''*'', ''posts ( id, title )'',
                          ''users:reporter_user_id ( id, nickname )''] Exact];
         query = (case status params of
                    Some st \<Rightarrow> if st \<noteq> [] then query @ [Eq ''status'' st] else query
                  | None \<Rightarrow> query);
         start = js_mul (js_sub page' (Num 1)) limit';
         end' = js_sub (js_add start limit') (Num 1);
         query = query @ [Range start end'];
         query = query @ [Order ''created_at'' False]
     in \<lparr>table = ''reports'', calls = query\<rparr>)"

definition getReportsForAdmin ::
  "(request \<Rightarrow> 'row response) \<Rightarrow> GetReportsParams option
     \<Rightarrow> effect list \<times> (js_error + 'row ReportsResult)" where
  "getReportsForAdmin db params_arg =
    (let query = getReportsForAdmin_query params_arg;
         answer = db query
     in case error answer of
          Some e \<Rightarrow>
            ([DbRequest query, ConsoleError ''Error fetching reports for admin:'' e],
             Inl (Error (''Failed to fetch reports: '' @ message e)))
        | None \<Rightarrow>
            ([DbRequest query,
              ConsoleLog [JSString ''Fetched '', length_opt (data answer),
                          JSString '' reports for admin (total: '',
                          num_or_null (response.count answer), JSString '')'']],
             Inr \<lparr>count = (case response.count answer of None \<Rightarrow> 0 | Some c \<Rightarrow> c),
                  reports = data answer\<rparr>))"

subsection \<open>\<^verbatim>\<open>updateReportStatusForAdmin\<close> and \<^verbatim>\<open>updatePostStatusForAdmin\<close>\<close>

text \<open>Lines 201 to 210: the object \<^verbatim>\<open>updateData\<close> and the request made with it.\<close>

definition updateData :: "string \<Rightarrow> string \<Rightarrow> string \<Rightarrow> (string \<times> js_value) list" where
  "updateData now status' adminId =
    [(''status'', JSString status'),
     (''resolver_admin_id'', JSString adminId),
     (''resolved_at'', if status' \<in> set [''resolved'', ''dismissed''] then JSString now
                        else JSNull)]"

definition updateReportStatusForAdmin_query ::
  "string \<Rightarrow> string \<Rightarrow> string \<Rightarrow> string \<Rightarrow> request" where
  "updateReportStatusForAdmin_query now reportId status' adminId =
    \<lparr>table = ''reports'',
     calls = [Update (updateData now status' adminId), Eq ''id'' reportId]\<rparr>"

definition updateReportStatusForAdmin ::
  "(request \<Rightarrow> 'row response) \<Rightarrow> string \<Rightarrow> string \<Rightarrow> string \<Rightarrow> string
     \<Rightarrow> effect list \<times> (js_error + UpdateResult)" where
  "updateReportStatusForAdmin db now reportId status' adminId =
    (let query = updateReportStatusForAdmin_query now reportId status' adminId;
         answer = db query
     in case error answer of
          Some e \<Rightarrow>
            ([DbRequest query,
              ConsoleError (''Error updating report '' @ reportId @ '' status for admin:'') e],
             Inl (Error (''Failed to update report status: '' @ message e)))
        | None \<Rightarrow>
            ([DbRequest query,
              ConsoleLog [JSString ''Report '', JSString reportId,
                          JSString '' status updated to '', JSString status',
                          JSString '' by admin '', JSString adminId]],
             Inr \<lparr>success = True\<rparr>))"

text \<open>Lines 227 to 235: the body is one console line and the return.\<close>

definition updatePostStatusForAdmin ::
  "string \<Rightarrow> string \<Rightarrow> effect list \<times> (js_error + UpdateResult)" where
  "updatePostStatusForAdmin postId status' =
    ([ConsoleLog [JSString ''Updating post '', JSString postId, JSString '' status to '',
                  JSString status', JSString '' for admin...'']],
     Inr \<lparr>success = True\<rparr>)"

section \<open>The database boundary\<close>

text \<open>
  The database service is not part of the module. To say what a request asks of it, this
  section writes down how the service reads the calls the module makes, as far as the
  module's own requests need it:
  \<^item> \<^verbatim>\<open>eq(column, value)\<close> keeps the rows whose column holds that value;
  \<^item> \<^verbatim>\<open>or(text)\<close> keeps the rows that satisfy at least one of the conditions of the
    text. The conditions are separated by commas and have the form
    \<^verbatim>\<open>column.operator.value\<close>; a value ends at a comma or a closing parenthesis. Only
    the operators \<^verbatim>\<open>ilike\<close> and \<^verbatim>\<open>eq\<close> are read here, and a text that does not
    parse selects no row (the service answers with an error);
  \<^item> \<^verbatim>\<open>ilike\<close> is the pattern match of SQL without regard to case: in the pattern, \<open>%\<close>
    (also written \<open>*\<close>) stands for any run of characters, \<open>_\<close> for any one
    character, and a backslash takes the next character literally;
  \<^item> several filter calls on one request are combined by conjunction; the other calls do
    not filter;
  \<^item> the \<^verbatim>\<open>order\<close> calls give the sort keys, in the order of the calls, and the last
    \<^verbatim>\<open>range\<close> call gives the window (the client turns it into an offset and a limit).
    These are separate settings of the request: where the calls stand among the others
    makes no difference. The service sorts the selected rows by the keys and then cuts the
    window out of the sorted rows.

  A row is the map from its column names to the text of its cells, with \<open>None\<close> for a
  null cell. The text here is ASCII: \<open>ascii_lower\<close> folds the letters \<open>A\<close> to \<open>Z\<close>, and the
  folding the service applies to other letters, which depends on the collation of the
  database, is not modelled. Every row and search text used below is ASCII.
\<close>

type_synonym row = "string \<Rightarrow> string option"

fun like_match :: "string \<Rightarrow> string \<Rightarrow> bool" where
  "like_match [] s = (s = [])"
| "like_match (p # ps) [] = (p = CHR ''%'' \<and> like_match ps [])"
| "like_match (p # ps) (c # cs) =
     (if p = CHR ''%'' then like_match ps (c # cs) \<or> like_match (p # ps) cs
      else if p = CHR 0x5C then (case ps of [] \<Rightarrow> False | q # qs \<Rightarrow> q = c \<and> like_match qs cs)
      else (p = CHR ''_'' \<or> p = c) \<and> like_match ps cs)"

definition ascii_lower :: "char \<Rightarrow> char" where
  "ascii_lower c =
    (case map_of (zip ''ABCDEFGHIJKLMNOPQRSTUVWXYZ'' ''abcdefghijklmnopqrstuvwxyz'') c of
       None \<Rightarrow> c | Some l \<Rightarrow> l)"

definition star :: "char \<Rightarrow> char" where
  "star c = (if c = CHR ''*'' then CHR ''%'' else c)"

definition ilike :: "string \<Rightarrow> string \<Rightarrow> bool" where
  "ilike pattern s = like_match (map ascii_lower (map star pattern)) (map ascii_lower s)"

fun split_on :: "char \<Rightarrow> string \<Rightarrow> string list" where
  "split_on d [] = [[]]"
| "split_on d (c # cs) =
     (if c = d then [] # split_on d cs
      else (case split_on d cs of [] \<Rightarrow> [[c]] | p # ps \<Rightarrow> (c # p) # ps))"

datatype cond = ILike string string | EqCond string string

definition parse_cond :: "string \<Rightarrow> cond option" where
  "parse_cond s =
    (let column = takeWhile (\<lambda>c. c \<noteq> CHR ''.'') s in
     case dropWhile (\<lambda>c. c \<noteq> CHR ''.'') s of
       [] \<Rightarrow> None
     | _ # rest \<Rightarrow>
         (let operator = takeWhile (\<lambda>c. c \<noteq> CHR ''.'') rest in
          case dropWhile (\<lambda>c. c \<noteq> CHR ''.'') rest of
            [] \<Rightarrow> None
          | _ # v \<Rightarrow>
              if column = [] \<or> CHR '')'' \<in> set v then None
              else if operator = ''ilike'' then Some (ILike column v)
              else if operator = ''eq'' then Some (EqCond column v)
              else None))"

definition parse_or :: "string \<Rightarrow> cond list option" where
  "parse_or s = those (map parse_cond (split_on CHR '','' s))"

fun sat_cond :: "row \<Rightarrow> cond \<Rightarrow> bool" where
  "sat_cond r (ILike column pattern) =
     (case r column of None \<Rightarrow> False | Some v \<Rightarrow> ilike pattern v)"
| "sat_cond r (EqCond column v) = (r column = Some v)"

fun passes :: "row \<Rightarrow> builder_call \<Rightarrow> bool" where
  "passes r (Or s) = (case parse_or s of None \<Rightarrow> False | Some cs \<Rightarrow> list_ex (sat_cond r) cs)"
| "passes r (Eq column v) = (r column = Some v)"
| "passes r (Select v va) = True"
| "passes r (Range v va) = True"
| "passes r (Order v va) = True"
| "passes r (Update v) = True"

definition selects :: "builder_call list \<Rightarrow> row \<Rightarrow> bool" where
  "selects cs r = list_all (passes r) cs"

text \<open>
  What the service does with the selected rows of a request: it sorts them by the keys of
  the request, if there are any, and then cuts the window of the request, if there is one,
  out of the sorted rows. How rows compare under the keys (the types of the columns, the
  place of nulls) and what a window keeps (also a window with negative or fractional
  bounds) is the service's business: \<open>sort_rows\<close> and \<open>window\<close> are parameters.
\<close>

definition arrange ::
  "((string \<times> bool) list \<Rightarrow> row list \<Rightarrow> row list)
     \<Rightarrow> (js_number \<Rightarrow> js_number \<Rightarrow> row list \<Rightarrow> row list)
     \<Rightarrow> builder_call list \<Rightarrow> row list \<Rightarrow> row list" where
  "arrange sort_rows window cs rows =
    (let sorted = (case orders cs of [] \<Rightarrow> rows | k # ks \<Rightarrow> sort_rows (k # ks) rows)
     in case ranges cs of
          [] \<Rightarrow> sorted
        | r # rs \<Rightarrow> (case last (r # rs) of (a, b) \<Rightarrow> window a b sorted))"

section \<open>The vocabulary of the properties\<close>





section \<open>Databases and rows for the examples\<close>

definition no_answer :: "request \<Rightarrow> unit response" where
  "no_answer q = \<lparr>data = None, error = None, count = None\<rparr>"

definition counting_db :: "request \<Rightarrow> unit response" where
  "counting_db q = \<lparr>data = Some [(), ()], error = None, count = Some 42\<rparr>"

definition failing_db :: "request \<Rightarrow> unit response" where
  "failing_db q =
    \<lparr>data = None, error = Some (PostgrestError ''connection lost''), count = None\<rparr>"

definition bob :: row where
  "bob = [''nickname'' \<mapsto> ''bob'', ''email'' \<mapsto> ''joANNa@x.io'', ''role'' \<mapsto> ''member'',
          ''tier'' \<mapsto> ''free'']"

section \<open>Lemmas\<close>

subsection \<open>Rounding, step by step\<close>

lemma scale_up_stop: "k = 0 \<or> a < 2 ^ 53 * s \<Longrightarrow> scale_up k a s = s"
  by (simp add: scale_up.simps)

lemma scale_up_step:
  "k \<noteq> 0 \<Longrightarrow> \<not> a < 2 ^ 53 * s \<Longrightarrow> scale_up k a s = scale_up (k - 1) a (2 * s)"
  by (simp add: scale_up.simps)

lemma scale_down_stop: "k = 0 \<or> 2 ^ 52 * s \<le> a \<Longrightarrow> scale_down k a s = s"
  by (simp add: scale_down.simps)

lemma scale_down_step:
  "k \<noteq> 0 \<Longrightarrow> \<not> 2 ^ 52 * s \<le> a \<Longrightarrow> scale_down k a s = scale_down (k - 1) a (s / 2)"
  by (simp add: scale_down.simps)

lemma floor_rat_numeral: "\<lfloor>numeral a / numeral b :: rat\<rfloor> = numeral a div numeral b"
  using floor_divide_of_int_eq [of "numeral a" "numeral b", where ?'a = rat] by simp

lemmas round_eval = round_double_def ulp_def half_even_def Let_def floor_rat_numeral
  scale_up_stop scale_up_step scale_down_stop scale_down_step

subsection \<open>Integers up to \<open>2^53\<close> are exact\<close>

lemma half_even_int: "half_even (of_int z) = z"
  by (simp add: half_even_def)

lemma scale_down_pow: "\<exists>j. scale_down k a s = s / 2 ^ j"
proof (induction k a s rule: scale_down.induct)
  case (1 k a s)
  show ?case
  proof (cases "k = 0 \<or> 2 ^ 52 * s \<le> a")
    case True
    then have "scale_down k a s = s / 2 ^ 0" by (simp add: scale_down.simps)
    then show ?thesis by blast
  next
    case False
    with 1 obtain j where "scale_down (k - 1) a (s / 2) = s / 2 / 2 ^ j" by blast
    with False have "scale_down k a s = s / 2 ^ Suc j" by (simp add: scale_down.simps)
    then show ?thesis by blast
  qed
qed

lemma round_exact_small:
  assumes "n \<noteq> 0" and "\<bar>n\<bar> < 2 ^ 53"
  shows "round_double (of_int n) = Num (of_int n)"
proof -
  let ?a = "\<bar>of_int n :: rat\<bar>"
  have lt: "\<not> (2 ^ 53 \<le> ?a)"
  proof -
    have "(of_int \<bar>n\<bar> :: rat) < of_int (2 ^ 53)" using assms(2) by (simp only: of_int_less_iff)
    then show ?thesis by simp
  qed
  obtain j where j: "scale_down 1074 ?a 1 = 1 / 2 ^ j" using scale_down_pow by blast
  have u: "ulp ?a = 1 / 2 ^ j" using lt j by (simp add: ulp_def)
  have q: "?a / (1 / 2 ^ j) = of_int (\<bar>n\<bar> * 2 ^ j)" by simp
  have r: "of_int (half_even (?a / ulp ?a)) * ulp ?a = ?a"
    unfolding u q half_even_int by simp
  have small: "\<not> (2 ^ 1024 \<le> ?a)"
  proof -
    have "(2::rat) ^ 53 \<le> 2 ^ 1024" by (rule power_increasing) simp_all
    with lt show ?thesis by linarith
  qed
  show ?thesis
    using assms(1) small unfolding round_double_def Let_def r
    by (auto simp: abs_if)
qed

lemma round_exact_top:
  "round_double (2 ^ 53) = Num (2 ^ 53)" "round_double (- (2 ^ 53)) = Num (- (2 ^ 53))"
  by (simp_all add: round_eval)

lemma round_exact:
  assumes "\<bar>n\<bar> \<le> 2 ^ 53"
  shows "round_double (of_int n) = Num (of_int n)"
proof -
  consider "n = 0" | "n \<noteq> 0" "\<bar>n\<bar> < 2 ^ 53" | "n = 2 ^ 53" | "n = - (2 ^ 53)"
    using assms by fastforce
  then show ?thesis
  proof cases
    case 1
    then show ?thesis by (simp add: round_double_def)
  next
    case 2
    then show ?thesis by (rule round_exact_small)
  next
    case 3
    then show ?thesis using round_exact_top(1) by simp
  next
    case 4
    then show ?thesis using round_exact_top(2) by simp
  qed
qed

lemma js_add_int:
  "\<bar>m + n\<bar> \<le> 2 ^ 53 \<Longrightarrow> js_add (Num (of_int m)) (Num (of_int n)) = Num (of_int (m + n))"
  using round_exact [of "m + n"] by simp

lemma js_sub_int:
  "\<bar>m - n\<bar> \<le> 2 ^ 53 \<Longrightarrow> js_sub (Num (of_int m)) (Num (of_int n)) = Num (of_int (m - n))"
  using round_exact [of "m - n"] by (simp add: js_sub_def)

lemma js_mul_int:
  "\<bar>m * n\<bar> \<le> 2 ^ 53 \<Longrightarrow> js_mul (Num (of_int m)) (Num (of_int n)) = Num (of_int (m * n))"
  using round_exact [of "m * n"] by simp

subsection \<open>Rounding keeps the sign\<close>












lemma round_exact_rat: "x \<in> \<int> \<Longrightarrow> \<bar>x\<bar> \<le> 2 ^ 53 \<Longrightarrow> round_double x = Num x"
proof -
  assume "x \<in> \<int>" and b: "\<bar>x\<bar> \<le> 2 ^ 53"
  then obtain n where n: "x = of_int n" by (auto elim: Ints_cases)
  with b have "(of_int \<bar>n\<bar> :: rat) \<le> of_int (2 ^ 53)" by simp
  then have "\<bar>n\<bar> \<le> 2 ^ 53" by (simp only: of_int_le_iff)
  with n show ?thesis by (simp add: round_exact)
qed

text \<open>
  The range of lines 47 to 48, for an integer page and limit, when the four results on the
  way stay within \<open>2^53\<close>.
\<close>

lemma exact_range:
  assumes "\<bar>p - 1\<bar> \<le> 2 ^ 53" and "\<bar>(p - 1) * l\<bar> \<le> 2 ^ 53"
    and "\<bar>(p - 1) * l + l\<bar> \<le> 2 ^ 53" and "\<bar>(p - 1) * l + l - 1\<bar> \<le> 2 ^ 53"
  shows "js_mul (js_sub (Num (of_int p)) (Num 1)) (Num (of_int l)) = Num (of_int ((p - 1) * l))"
    and "js_sub (js_add (Num (of_int ((p - 1) * l))) (Num (of_int l))) (Num 1)
         = Num (of_int ((p - 1) * l + l - 1))"
proof -
  have one: "Num 1 = Num (of_int 1)" by simp
  have a: "js_sub (Num (of_int p)) (Num 1) = Num (of_int (p - 1))"
    unfolding one using assms(1) by (rule js_sub_int)
  show "js_mul (js_sub (Num (of_int p)) (Num 1)) (Num (of_int l)) = Num (of_int ((p - 1) * l))"
    unfolding a using assms(2) by (rule js_mul_int)
  have c: "js_add (Num (of_int ((p - 1) * l))) (Num (of_int l)) = Num (of_int ((p - 1) * l + l))"
    using assms(3) by (rule js_add_int)
  have d: "js_sub (Num (of_int ((p - 1) * l + l))) (Num 1) = Num (of_int ((p - 1) * l + l - 1))"
    unfolding one using assms(4) by (rule js_sub_int)
  show "js_sub (js_add (Num (of_int ((p - 1) * l))) (Num (of_int l))) (Num 1)
         = Num (of_int ((p - 1) * l + l - 1))"
    unfolding c d ..
qed

lemma exact_range_pages:
  assumes "1 \<le> p" and "1 \<le> l" and "p * l \<le> 2 ^ 53"
  shows "js_mul (js_sub (Num (of_int p)) (Num 1)) (Num (of_int l)) = Num (of_int ((p - 1) * l))"
    and "js_sub (js_add (Num (of_int ((p - 1) * l))) (Num (of_int l))) (Num 1)
         = Num (of_int ((p - 1) * l + l - 1))"
proof -
  have top: "p * l \<le> 9007199254740992" using assms(3) by simp
  have pl: "(p - 1) * l + l = p * l" by (simp add: algebra_simps)
  have nn: "0 \<le> (p - 1) * l" using assms(1,2) by simp
  have "p * 1 \<le> p * l" using assms(1,2) by (intro mult_left_mono) simp_all
  then have p: "p \<le> p * l" by simp
  have b1: "\<bar>p - 1\<bar> \<le> 9007199254740992" using assms(1) p top by linarith
  have b2: "\<bar>(p - 1) * l\<bar> \<le> 9007199254740992" using nn pl assms(2) top by linarith
  have b3: "\<bar>(p - 1) * l + l\<bar> \<le> 9007199254740992" using nn pl assms(2) top by linarith
  have b4: "\<bar>(p - 1) * l + l - 1\<bar> \<le> 9007199254740992" using nn pl assms(2) top by linarith
  have b: "\<bar>p - 1\<bar> \<le> 2 ^ 53" "\<bar>(p - 1) * l\<bar> \<le> 2 ^ 53" "\<bar>(p - 1) * l + l\<bar> \<le> 2 ^ 53"
    "\<bar>(p - 1) * l + l - 1\<bar> \<le> 2 ^ 53"
    using b1 b2 b3 b4 by simp_all
  show "js_mul (js_sub (Num (of_int p)) (Num 1)) (Num (of_int l)) = Num (of_int ((p - 1) * l))"
    by (rule exact_range(1) [OF b])
  show "js_sub (js_add (Num (of_int ((p - 1) * l))) (Num (of_int l))) (Num 1)
         = Num (of_int ((p - 1) * l + l - 1))"
    by (rule exact_range(2) [OF b])
qed


subsection \<open>The request each function sends\<close>

lemma users_requests:
  "db_requests (fst (getUsersForAdmin db ps)) = [getUsersForAdmin_query ps]"
  by (simp add: getUsersForAdmin_def Let_def split: option.split)

lemma posts_requests:
  "db_requests (fst (getPostsForAdmin db ps)) = [getPostsForAdmin_query ps]"
  by (simp add: getPostsForAdmin_def Let_def split: option.split)

lemma reports_requests:
  "db_requests (fst (getReportsForAdmin db ps)) = [getReportsForAdmin_query ps]"
  by (simp add: getReportsForAdmin_def Let_def split: option.split)

lemma ranges_append: "ranges (xs @ ys) = ranges xs @ ranges ys"
  by (induction xs rule: ranges.induct) simp_all

lemma orders_append: "orders (xs @ ys) = orders xs @ orders ys"
  by (induction xs rule: orders.induct) simp_all

lemma users_ranges:
  "page us = Some p \<Longrightarrow> limit us = Some l \<Longrightarrow>
   ranges (calls (getUsersForAdmin_query (Some us)))
     = [(js_mul (js_sub p (Num 1)) l, js_sub (js_add (js_mul (js_sub p (Num 1)) l) l) (Num 1))]"
  by (simp add: getUsersForAdmin_query_def Let_def ranges_append split: option.split)

lemma posts_ranges:
  "page ps = Some p \<Longrightarrow> limit ps = Some l \<Longrightarrow>
   ranges (calls (getPostsForAdmin_query (Some ps)))
     = [(js_mul (js_sub p (Num 1)) l, js_sub (js_add (js_mul (js_sub p (Num 1)) l) l) (Num 1))]"
  by (simp add: getPostsForAdmin_query_def Let_def split: option.split)

lemma reports_ranges:
  "page rs = Some p \<Longrightarrow> limit rs = Some l \<Longrightarrow>
   ranges (calls (getReportsForAdmin_query (Some rs)))
     = [(js_mul (js_sub p (Num 1)) l, js_sub (js_add (js_mul (js_sub p (Num 1)) l) l) (Num 1))]"
  by (simp add: getReportsForAdmin_query_def Let_def ranges_append split: option.split)





subsection \<open>The service does not see the order of the calls\<close>

lemma arrange_one:
  "orders cs = [k] \<Longrightarrow> ranges cs = [(a, b)] \<Longrightarrow>
   arrange sort_rows window cs rows = window a b (sort_rows [k] rows)"
  by (simp add: arrange_def)

lemma arrange_swap:
  "arrange sort_rows window (cs @ [Range a b, Order c d] @ ds) rows
   = arrange sort_rows window (cs @ [Order c d, Range a b] @ ds) rows"
  by (simp add: arrange_def orders_append ranges_append)

lemma selects_swap:
  "selects (cs @ [Range a b, Order c d] @ ds) r = selects (cs @ [Order c d, Range a b] @ ds) r"
  by (simp add: selects_def)

section \<open>The claims\<close>

subsection \<open>C1: the update of a report\<close>

text \<open>
  Claim C1. For every report id, status, administrator id and clock reading,
  \<open>updateReportStatusForAdmin\<close> sends one request, on the table \<^verbatim>\<open>reports\<close>: the update with
  the object \<open>updateData\<close> followed by the equality filter of \<^verbatim>\<open>id\<close> with the report id. The
  object has the three properties \<^verbatim>\<open>status\<close>, \<^verbatim>\<open>resolver_admin_id\<close> and \<^verbatim>\<open>resolved_at\<close> and
  no other; \<^verbatim>\<open>status\<close> is the given status, \<^verbatim>\<open>resolver_admin_id\<close> is the administrator id
  whatever the status, and \<^verbatim>\<open>resolved_at\<close> is the clock reading when the status is
  \<^verbatim>\<open>resolved\<close> or \<^verbatim>\<open>dismissed\<close> and null otherwise. The request selects exactly the rows
  whose \<^verbatim>\<open>id\<close> is the report id.
\<close>

theorem report_update:
  "db_requests (fst (updateReportStatusForAdmin db now reportId st adminId))
     = [\<lparr>table = ''reports'',
         calls = [Update (updateData now st adminId), Eq ''id'' reportId]\<rparr>]
   \<and> map fst (updateData now st adminId) = [''status'', ''resolver_admin_id'', ''resolved_at'']
   \<and> map_of (updateData now st adminId) ''status'' = Some (JSString st)
   \<and> map_of (updateData now st adminId) ''resolver_admin_id'' = Some (JSString adminId)
   \<and> map_of (updateData now st adminId) ''resolved_at''
       = Some (if st = ''resolved'' \<or> st = ''dismissed'' then JSString now else JSNull)
   \<and> (selects [Update (updateData now st adminId), Eq ''id'' reportId] r
        \<longleftrightarrow> r ''id'' = Some reportId)"
  by (simp add: updateReportStatusForAdmin_def updateReportStatusForAdmin_query_def
      updateData_def selects_def Let_def split: option.split)

text \<open>
  For instance, resolving report \<^verbatim>\<open>r1\<close> stamps it, and a row with another id is not
  selected.
\<close>

theorem report_update_witness:
  "db_requests (fst (updateReportStatusForAdmin no_answer ''2025-01-01T00:00:00.000Z'' ''r1''
      ''resolved'' ''a1''))
     = [\<lparr>table = ''reports'',
         calls = [Update [(''status'', JSString ''resolved''),
                          (''resolver_admin_id'', JSString ''a1''),
                          (''resolved_at'', JSString ''2025-01-01T00:00:00.000Z'')],
                  Eq ''id'' ''r1'']\<rparr>]
   \<and> \<not> selects [Update (updateData ''2025-01-01T00:00:00.000Z'' ''resolved'' ''a1''),
                  Eq ''id'' ''r1''] [''id'' \<mapsto> ''r2'']"
  using report_update [of no_answer "''2025-01-01T00:00:00.000Z''" "''r1''" "''resolved''"
      "''a1''" "[''id'' \<mapsto> ''r2'']"]
  by (simp add: updateData_def)

subsection \<open>C2: the row range\<close>

text \<open>
  Claim C2, amended. For each of the three list functions and all integers \<open>page \<ge> 1\<close> and
  \<open>limit \<ge> 1\<close> with \<open>page * limit \<le> 2^53\<close>, the function sends one request, and the one row
  range of that request is exactly \<open>[(page - 1) * limit, (page - 1) * limit + limit - 1]\<close>.
\<close>

theorem pagination_range:
  assumes "1 \<le> p" and "1 \<le> l" and "p * l \<le> 2 ^ 53"
    and "page us = Some (Num (of_int p))" and "limit us = Some (Num (of_int l))"
    and "page ps = Some (Num (of_int p))" and "limit ps = Some (Num (of_int l))"
    and "page rs = Some (Num (of_int p))" and "limit rs = Some (Num (of_int l))"
  shows "map (\<lambda>q. ranges (calls q)) (db_requests (fst (getUsersForAdmin db (Some us))))
           = [[(Num (of_int ((p - 1) * l)), Num (of_int ((p - 1) * l + l - 1)))]]
       \<and> map (\<lambda>q. ranges (calls q)) (db_requests (fst (getPostsForAdmin db (Some ps))))
           = [[(Num (of_int ((p - 1) * l)), Num (of_int ((p - 1) * l + l - 1)))]]
       \<and> map (\<lambda>q. ranges (calls q)) (db_requests (fst (getReportsForAdmin db (Some rs))))
           = [[(Num (of_int ((p - 1) * l)), Num (of_int ((p - 1) * l + l - 1)))]]"
  unfolding users_requests posts_requests reports_requests
  by (simp only: list.map users_ranges [OF assms(4,5)] posts_ranges [OF assms(6,7)]
      reports_ranges [OF assms(8,9)] exact_range_pages [OF assms(1,2,3)] simp_thms)

text \<open>Page 2 with 10 rows a page is the range from 10 to 19.\<close>

theorem pagination_range_witness:
  "(1::int) \<le> 2 \<and> (1::int) \<le> 10 \<and> (2::int) * 10 \<le> 2 ^ 53
   \<and> map (\<lambda>q. ranges (calls q)) (db_requests (fst (getUsersForAdmin no_answer
      (Some \<lparr>page = Some (Num 2), limit = Some (Num 10), search = None, role = None,
             tier = None\<rparr>))))
           = [[(Num 10, Num 19)]]
   \<and> map (\<lambda>q. ranges (calls q)) (db_requests (fst (getPostsForAdmin no_answer
      (Some \<lparr>page = Some (Num 2), limit = Some (Num 10)\<rparr>))))
           = [[(Num 10, Num 19)]]
   \<and> map (\<lambda>q. ranges (calls q)) (db_requests (fst (getReportsForAdmin no_answer
      (Some \<lparr>page = Some (Num 2), limit = Some (Num 10), status = None\<rparr>))))
           = [[(Num 10, Num 19)]]"
  using pagination_range [of 2 10
      "\<lparr>page = Some (Num 2), limit = Some (Num 10), search = None, role = None, tier = None\<rparr>"
      "\<lparr>page = Some (Num 2), limit = Some (Num 10)\<rparr>"
      "\<lparr>page = Some (Num 2), limit = Some (Num 10), status = None\<rparr>" no_answer]
  by simp

text \<open>
  Without the bound the claim fails. For page 94906268 and limit 94906267 the claimed range
  is from 9007199515875289 to 9007199610781555; both lie above \<open>2^53\<close>, where the doubles
  are the even integers, and the range sent is from 9007199515875288 to 9007199610781556.
  Nor does it hold for fractions: for the page \<open>1 + 2^-52\<close>, the double next above 1, and
  limit 3 the claimed end is \<open>2 + 3 * 2^-52\<close> and the end sent is \<open>2 + 2^-50\<close>.
\<close>

theorem pagination_range_counterexample:
  "(94906268 - 1) * 94906267 = (9007199515875289::int)
   \<and> (94906268 - 1) * 94906267 + 94906267 - 1 = (9007199610781555::int)
   \<and> map (\<lambda>q. ranges (calls q)) (db_requests (fst (getUsersForAdmin no_answer
      (Some \<lparr>page = Some (Num 94906268), limit = Some (Num 94906267), search = None,
             role = None, tier = None\<rparr>))))
           = [[(Num 9007199515875288, Num 9007199610781556)]]
   \<and> map (\<lambda>q. ranges (calls q)) (db_requests (fst (getPostsForAdmin no_answer
      (Some \<lparr>page = Some (Num 94906268), limit = Some (Num 94906267)\<rparr>))))
           = [[(Num 9007199515875288, Num 9007199610781556)]]
   \<and> map (\<lambda>q. ranges (calls q)) (db_requests (fst (getReportsForAdmin no_answer
      (Some \<lparr>page = Some (Num 94906268), limit = Some (Num 94906267), status = None\<rparr>))))
           = [[(Num 9007199515875288, Num 9007199610781556)]]
   \<and> round_double (1 + 1 / 2 ^ 52) = Num (1 + 1 / 2 ^ 52)
   \<and> map (\<lambda>q. ranges (calls q)) (db_requests (fst (getPostsForAdmin no_answer
      (Some \<lparr>page = Some (Num (1 + 1 / 2 ^ 52)), limit = Some (Num 3)\<rparr>))))
           = [[(Num (3 / 2 ^ 52), Num (2 + 1 / 2 ^ 50))]]
   \<and> (1 + 1 / 2 ^ 52 - 1) * 3 + 3 - 1 = (2 + 3 / 2 ^ 52 :: rat)
   \<and> (2 + 1 / 2 ^ 50 :: rat) \<noteq> 2 + 3 / 2 ^ 52"
proof -
  have double: "round_double (1 + 1 / 2 ^ 52) = Num (1 + 1 / 2 ^ 52)"
    by (simp add: round_eval)
  have fstart: "js_mul (js_sub (Num (1 + 1 / 2 ^ 52)) (Num 1)) (Num 3) = Num (3 / 2 ^ 52)"
    by (simp add: js_sub_def round_eval)
  have fsum: "js_add (Num (3 / 2 ^ 52)) (Num 3) = Num (3 + 1 / 2 ^ 50)"
    by (simp add: round_eval)
  have fend: "js_sub (Num (3 + 1 / 2 ^ 50)) (Num 1) = Num (2 + 1 / 2 ^ 50)"
    by (simp add: js_sub_def round_eval)
  have start: "js_mul (js_sub (Num 94906268) (Num 1)) (Num 94906267) = Num 9007199515875288"
    by (simp add: js_sub_def round_eval)
  have sum: "js_add (Num 9007199515875288) (Num 94906267) = Num 9007199610781556"
    by (simp add: round_eval)
  have end': "js_sub (Num 9007199610781556) (Num 1) = Num 9007199610781556"
    by (simp add: js_sub_def round_eval)
  have frac: "map (\<lambda>q. ranges (calls q)) (db_requests (fst (getPostsForAdmin no_answer
      (Some \<lparr>page = Some (Num (1 + 1 / 2 ^ 52)), limit = Some (Num 3)\<rparr>))))
           = [[(Num (3 / 2 ^ 52), Num (2 + 1 / 2 ^ 50))]]"
    unfolding posts_requests
    by (simp only: list.map posts_ranges [of _ "Num (1 + 1 / 2 ^ 52)" "Num 3"]
        GetAdminPostsParams.simps fstart fsum fend)
  have large: "map (\<lambda>q. ranges (calls q)) (db_requests (fst (getUsersForAdmin no_answer
      (Some \<lparr>page = Some (Num 94906268), limit = Some (Num 94906267), search = None,
             role = None, tier = None\<rparr>))))
           = [[(Num 9007199515875288, Num 9007199610781556)]]
   \<and> map (\<lambda>q. ranges (calls q)) (db_requests (fst (getPostsForAdmin no_answer
      (Some \<lparr>page = Some (Num 94906268), limit = Some (Num 94906267)\<rparr>))))
           = [[(Num 9007199515875288, Num 9007199610781556)]]
   \<and> map (\<lambda>q. ranges (calls q)) (db_requests (fst (getReportsForAdmin no_answer
      (Some \<lparr>page = Some (Num 94906268), limit = Some (Num 94906267), status = None\<rparr>))))
           = [[(Num 9007199515875288, Num 9007199610781556)]]"
    unfolding users_requests posts_requests reports_requests
    by (simp add: users_ranges posts_ranges reports_ranges start sum end' del: js_mul.simps
        js_add.simps)
  have "(1 + 1 / 2 ^ 52 - 1) * 3 + 3 - 1 = (2 + 3 / 2 ^ 52 :: rat)"
    and "(2 + 1 / 2 ^ 50 :: rat) \<noteq> 2 + 3 / 2 ^ 52"
    by simp_all
  with large frac double show ?thesis
    by (simp only: simp_thms) simp
qed

subsection \<open>C3: the stub\<close>

text \<open>
  Claim C3. For every post id and status, \<open>updatePostStatusForAdmin\<close> sends no request to
  the database, so it updates no table, and it returns the object whose \<^verbatim>\<open>success\<close> is
  true.
\<close>

theorem updatePostStatus_is_stub:
  "db_requests (fst (updatePostStatusForAdmin postId status')) = []
   \<and> snd (updatePostStatusForAdmin postId status') = Inr \<lparr>success = True\<rparr>"
  by (simp add: updatePostStatusForAdmin_def)

subsection \<open>C4: the filters of the user list\<close>

text \<open>
  Claim C4 says that the search filter is a substring test on nickname or email. Line 33
  puts the search text between two \<open>%\<close> as it is, so the characters that a pattern or the
  filter text treats specially keep their special meaning. At the search text \<^verbatim>\<open>_\<close> the
  request carries the filter \<^verbatim>\<open>nickname.ilike.%_%,email.ilike.%_%\<close>, whose pattern any
  non-empty cell matches: the request selects Bob, although there is no underscore in his
  nickname and none in his email.
\<close>

theorem search_text_is_not_escaped:
  "calls (getUsersForAdmin_query
      (Some \<lparr>page = None, limit = None, search = Some ''_'', role = None, tier = None\<rparr>))
     = [Select [''*''] Exact, Or ''nickname.ilike.%_%,email.ilike.%_%'',
        Range (Num 0) (Num 9), Order ''created_at'' False]
   \<and> selects (calls (getUsersForAdmin_query
      (Some \<lparr>page = None, limit = None, search = Some ''_'', role = None, tier = None\<rparr>))) bob
   \<and> bob ''nickname'' = Some ''bob'' \<and> CHR ''_'' \<notin> set ''bob''
   \<and> bob ''email'' = Some ''joANNa@x.io'' \<and> CHR ''_'' \<notin> set ''joANNa@x.io''"
proof -
  have c: "calls (getUsersForAdmin_query
      (Some \<lparr>page = None, limit = None, search = Some ''_'', role = None, tier = None\<rparr>))
     = [Select [''*''] Exact, Or ''nickname.ilike.%_%,email.ilike.%_%'',
        Range (Num 0) (Num 9), Order ''created_at'' False]"
    by (simp add: getUsersForAdmin_query_def search_filter_def js_sub_def round_exact_rat)
  have "selects [Select [''*''] Exact, Or ''nickname.ilike.%_%,email.ilike.%_%'',
        Range (Num 0) (Num 9), Order ''created_at'' False] bob"
    by (simp add: selects_def parse_or_def parse_cond_def ilike_def star_def ascii_lower_def
        bob_def)
  then show ?thesis
    unfolding c by (simp add: bob_def)
qed

subsection \<open>C5: database errors\<close>

text \<open>
  Claim C5. Whenever the database answers the request of one of the four functions that
  call it with an error, the function throws: the three list functions an \<^verbatim>\<open>Error\<close> whose
  message is \<^verbatim>\<open>Failed to fetch users: \<close>, \<^verbatim>\<open>Failed to fetch posts: \<close> or
  \<^verbatim>\<open>Failed to fetch reports: \<close> followed by the message of the database error (the query
  failure), and \<open>updateReportStatusForAdmin\<close> an \<^verbatim>\<open>Error\<close> whose message is
  \<^verbatim>\<open>Failed to update report status: \<close> followed by that message (the update failure).
  Nothing is returned. The fifth function, \<open>updatePostStatusForAdmin\<close>, makes no database
  call.
\<close>

theorem database_error_is_raised:
  "(error (db (getUsersForAdmin_query us)) = Some e \<longrightarrow>
      snd (getUsersForAdmin db us) = Inl (Error (''Failed to fetch users: '' @ message e)))
   \<and> (error (db (getPostsForAdmin_query ps)) = Some e \<longrightarrow>
      snd (getPostsForAdmin db ps) = Inl (Error (''Failed to fetch posts: '' @ message e)))
   \<and> (error (db (getReportsForAdmin_query rs)) = Some e \<longrightarrow>
      snd (getReportsForAdmin db rs) = Inl (Error (''Failed to fetch reports: '' @ message e)))
   \<and> (error (db (updateReportStatusForAdmin_query now reportId st adminId)) = Some e \<longrightarrow>
      snd (updateReportStatusForAdmin db now reportId st adminId)
        = Inl (Error (''Failed to update report status: '' @ message e)))"
  by (simp add: getUsersForAdmin_def getPostsForAdmin_def getReportsForAdmin_def
      updateReportStatusForAdmin_def Let_def)

theorem database_error_is_raised_witness:
  "snd (getUsersForAdmin failing_db None) = Inl (Error ''Failed to fetch users: connection lost'')
   \<and> snd (getPostsForAdmin failing_db None) = Inl (Error ''Failed to fetch posts: connection lost'')
   \<and> snd (getReportsForAdmin failing_db None)
       = Inl (Error ''Failed to fetch reports: connection lost'')
   \<and> snd (updateReportStatusForAdmin failing_db ''2025-01-01T00:00:00.000Z'' ''r1''
            ''resolved'' ''a1'')
       = Inl (Error ''Failed to update report status: connection lost'')"
  using database_error_is_raised [of failing_db None "PostgrestError ''connection lost''" None None
      "''2025-01-01T00:00:00.000Z''" "''r1''" "''resolved''" "''a1''"]
  by (simp add: failing_db_def)

subsection \<open>C6: sort and range\<close>


subsection \<open>C7: the default parameters\<close>

text \<open>
  Claim C7. Each of the three list functions, called with no argument, performs the same
  effects and gives the same outcome as when called with page 1, limit 10 and every other
  parameter absent, whatever the database answers.
\<close>

theorem default_parameters:
  "getUsersForAdmin db None
     = getUsersForAdmin db
         (Some \<lparr>page = Some (Num 1), limit = Some (Num 10), search = None, role = None,
                tier = None\<rparr>)
   \<and> getPostsForAdmin db None
     = getPostsForAdmin db (Some \<lparr>page = Some (Num 1), limit = Some (Num 10)\<rparr>)
   \<and> getReportsForAdmin db None
     = getReportsForAdmin db
         (Some \<lparr>page = Some (Num 1), limit = Some (Num 10), status = None\<rparr>)"
  by (simp add: getUsersForAdmin_def getUsersForAdmin_query_def
      getPostsForAdmin_def getPostsForAdmin_query_def
      getReportsForAdmin_def getReportsForAdmin_query_def)

subsection \<open>C8: the returned count\<close>

text \<open>
  Claim C8. Whenever one of the three list functions returns, the \<^verbatim>\<open>count\<close> of the
  returned object is 0 if the count in the answer of the database is null, and is that
  count otherwise. The returned \<^verbatim>\<open>count\<close> is a number by its type.
\<close>

theorem count_defaults_to_zero:
  "(snd (getUsersForAdmin db us) = Inr ures \<longrightarrow>
      count ures = (case response.count (db (getUsersForAdmin_query us)) of
                      None \<Rightarrow> 0 | Some c \<Rightarrow> c))
   \<and> (snd (getPostsForAdmin db ps) = Inr pres \<longrightarrow>
      count pres = (case response.count (db (getPostsForAdmin_query ps)) of
                      None \<Rightarrow> 0 | Some c \<Rightarrow> c))
   \<and> (snd (getReportsForAdmin db rs) = Inr rres \<longrightarrow>
      count rres = (case response.count (db (getReportsForAdmin_query rs)) of
                      None \<Rightarrow> 0 | Some c \<Rightarrow> c))"
  by (auto simp: getUsersForAdmin_def getPostsForAdmin_def getReportsForAdmin_def Let_def
      split: option.splits)

theorem count_defaults_to_zero_witness:
  "snd (getUsersForAdmin no_answer None) = Inr \<lparr>count = 0, users = None\<rparr>
   \<and> snd (getPostsForAdmin no_answer None) = Inr \<lparr>count = 0, posts = []\<rparr>
   \<and> snd (getReportsForAdmin no_answer None) = Inr \<lparr>count = 0, reports = None\<rparr>
   \<and> snd (getUsersForAdmin counting_db None) = Inr \<lparr>count = 42, users = Some [(), ()]\<rparr>
   \<and> snd (getPostsForAdmin counting_db None) = Inr \<lparr>count = 42, posts = [(), ()]\<rparr>
   \<and> snd (getReportsForAdmin counting_db None) = Inr \<lparr>count = 42, reports = Some [(), ()]\<rparr>"
  using count_defaults_to_zero [of no_answer None "\<lparr>count = 0, users = None\<rparr>"
      None "\<lparr>count = 0, posts = []\<rparr>" None "\<lparr>count = 0, reports = None\<rparr>"]
    count_defaults_to_zero [of counting_db None "\<lparr>count = 42, users = Some [(), ()]\<rparr>"
      None "\<lparr>count = 42, posts = [(), ()]\<rparr>" None "\<lparr>count = 42, reports = Some [(), ()]\<rparr>"]
  by (simp add: getUsersForAdmin_def getPostsForAdmin_def getReportsForAdmin_def
      no_answer_def counting_db_def)

subsection \<open>C9: a null row set\<close>

text \<open>
  Claim C9. When the database answers with no error and null rows, \<open>getPostsForAdmin\<close>
  returns the empty list as \<^verbatim>\<open>posts\<close>, while \<open>getUsersForAdmin\<close> and
  \<open>getReportsForAdmin\<close> return the null itself as \<^verbatim>\<open>users\<close> and \<^verbatim>\<open>reports\<close>.
\<close>

theorem null_rows:
  "(error (db (getPostsForAdmin_query ps)) = None \<and> data (db (getPostsForAdmin_query ps)) = None
      \<longrightarrow> (\<exists>res. snd (getPostsForAdmin db ps) = Inr res \<and> posts res = []))
   \<and> (error (db (getUsersForAdmin_query us)) = None \<and> data (db (getUsersForAdmin_query us)) = None
      \<longrightarrow> (\<exists>res. snd (getUsersForAdmin db us) = Inr res \<and> users res = None))
   \<and> (error (db (getReportsForAdmin_query rs)) = None
        \<and> data (db (getReportsForAdmin_query rs)) = None
      \<longrightarrow> (\<exists>res. snd (getReportsForAdmin db rs) = Inr res \<and> reports res = None))"
  by (simp add: getUsersForAdmin_def getPostsForAdmin_def getReportsForAdmin_def Let_def)

theorem null_rows_witness:
  "(\<exists>res. snd (getPostsForAdmin no_answer None) = Inr res \<and> posts res = [])
   \<and> (\<exists>res. snd (getUsersForAdmin no_answer None) = Inr res \<and> users res = None)
   \<and> (\<exists>res. snd (getReportsForAdmin no_answer None) = Inr res \<and> reports res = None)"
  using null_rows [of no_answer None None None]
  by (simp add: no_answer_def)

subsection \<open>C10: pages below the first\<close>




end
